theory Spec2Isabelle
  imports Complex_Main "HOL-Library.Char_ord" "HOL-Library.List_Lexorder"
begin

section \<open>Exceptions\<close>

text \<open>
  The exceptions that the modelled part of \<open>aq_widget.py\<close> can raise. A function that
  may raise returns \<open>error + 'a\<close>, with \<open>Inl\<close> for the exception.
\<close>

datatype error =
    ZeroDivisionError
  | ConnectionError
  | HTTPError nat
  | JSONDecodeError
  | OSError
  | PermissionError
  | UnicodeDecodeError

section \<open>AQI calculation\<close>

text \<open>
  Concentrations and the bounds of the PM2.5 table are Python floats in the source, IEEE
  doubles. A real number of the model stands for the double nearest to it, as a decimal
  literal or \<open>float(...)\<close> of a decimal string does in Python; NaN and the infinities
  are not values of the model. The test \<open>Clow <= C <= Chigh\<close> compares the numbers
  themselves: rounding keeps their order, so the test on the doubles gives the same
  answer unless both numbers round to one double.
\<close>

type_synonym bucket = "real \<times> real \<times> int \<times> int"

definition PM25_BREAKPOINTS :: "bucket list" where
  "PM25_BREAKPOINTS =
    [(0.0, 12.0, 0, 50),
     (12.1, 35.4, 51, 100),
     (35.5, 55.4, 101, 150),
     (55.5, 150.4, 151, 200),
     (150.5, 250.4, 201, 300),
     (250.5, 500.4, 301, 500)]"

definition PM10_BREAKPOINTS :: "bucket list" where
  "PM10_BREAKPOINTS =
    [(0, 54, 0, 50),
     (55, 154, 51, 100),
     (155, 254, 101, 150),
     (255, 354, 151, 200),
     (355, 424, 201, 300),
     (425, 604, 301, 500)]"

text \<open>
  Python's built-in \<open>round\<close> with one argument: the nearest integer, a tie going to
  the even neighbour.
\<close>

definition py_round :: "real \<Rightarrow> int" where
  "py_round x =
    (let f = \<lfloor>x\<rfloor>; d = x - of_int f
     in if d < 1 / 2 then f
        else if 1 / 2 < d then f + 1
        else if even f then f else f + 1)"

text \<open>
  Rounding to double precision. A double is an integer multiple of a power of two: the
  power is 52 binary places below the leading bit of the number, and not below 2 to
  the power -1074, the spacing of the subnormal numbers. \<open>fl x\<close> is the multiple
  nearest to \<open>x\<close>, a tie going to the even multiple. The largest double does not cap it: no
  value of the interpolation comes near.
\<close>

definition ulp_exp :: "real \<Rightarrow> int" where
  "ulp_exp x = max (\<lfloor>log 2 \<bar>x\<bar>\<rfloor> - 52) (- 1074)"

definition fl :: "real \<Rightarrow> real" where
  "fl x =
    (if x = 0 then 0
     else of_int (py_round (x / 2 powr of_int (ulp_exp x))) * 2 powr of_int (ulp_exp x))"

text \<open>
  The value handed to \<open>round\<close> inside a bucket (the variable \<open>aqi\<close> of the source):
  \<open>(Ihigh - Ilow) / (Chigh - Clow) * (C - Clow) + Ilow\<close> in double arithmetic. Each
  number is taken as a double and each operation rounds its exact result.
\<close>

definition raw_index :: "real \<Rightarrow> bucket \<Rightarrow> real" where
  "raw_index C b =
    (case b of (Clow, Chigh, Ilow, Ihigh) \<Rightarrow>
       fl (fl (fl (fl (of_int (Ihigh - Ilow)) / fl (fl Chigh - fl Clow)) * fl (fl C - fl Clow))
           + fl (of_int Ilow)))"

fun calc_aqi_from_breakpoints :: "real option \<Rightarrow> bucket list \<Rightarrow> error + int option" where
  "calc_aqi_from_breakpoints None table = Inr None"
| "calc_aqi_from_breakpoints (Some C) [] = Inr None"
| "calc_aqi_from_breakpoints (Some C) ((Clow, Chigh, Ilow, Ihigh) # table) =
    (if Clow \<le> C \<and> C \<le> Chigh then
       (if Chigh - Clow = 0 then Inl ZeroDivisionError
        else Inr (Some (py_round (raw_index C (Clow, Chigh, Ilow, Ihigh)))))
     else calc_aqi_from_breakpoints (Some C) table)"

text \<open>
  \<open>vals\<close> is the list of the sub-indices that are not \<open>None\<close>, in the order
  \<open>(aqi25, aqi10)\<close>; \<open>max(vals)\<close> is only reached when it is not empty.
\<close>

definition calc_aqi :: "real option \<Rightarrow> real option \<Rightarrow> error + int option" where
  "calc_aqi pm25 pm10 =
    (case (if pm25 \<noteq> None then calc_aqi_from_breakpoints pm25 PM25_BREAKPOINTS else Inr None) of
       Inl e \<Rightarrow> Inl e
     | Inr aqi25 \<Rightarrow>
        (case (if pm10 \<noteq> None then calc_aqi_from_breakpoints pm10 PM10_BREAKPOINTS else Inr None) of
           Inl e \<Rightarrow> Inl e
         | Inr aqi10 \<Rightarrow>
            (case concat (map (\<lambda>v. case v of None \<Rightarrow> [] | Some a \<Rightarrow> [a]) [aqi25, aqi10]) of
               [] \<Rightarrow> Inr None
             | v # vs \<Rightarrow> Inr (Some (fold max vs v)))))"


definition trend_icon :: "int option \<Rightarrow> int option \<Rightarrow> string" where
  "trend_icon new old =
    (if new = None \<or> old = None then ''arrow_flat''
     else if the new > the old then ''arrow_up''
     else if the new < the old then ''arrow_down''
     else ''arrow_flat'')"

section \<open>Sensor.Community payload\<close>

text \<open>
  \<open>fetch_sensor_data\<close> reads the payload with \<open>dict.get\<close>, so every field may be
  missing. An entry of the documented shape is a record of optional fields:
  \<open>entry_sensor_id\<close> is \<open>entry.get("sensor", {}).get("id")\<close>, the two timestamps are
  strings, and a numeric field holds the result of \<open>float(...)\<close> on it, \<open>None\<close>
  when the field is missing or \<open>float\<close> raises \<open>TypeError\<close> or \<open>ValueError\<close> (the
  source catches both and skips the item).
\<close>

record sensordatavalue =
  sv_value_type :: "string option"
  sv_value :: "real option"

record entry =
  entry_sensor_id :: "int option"
  entry_timestamp :: "string option"
  entry_timestamp_measured :: "string option"
  entry_latitude :: "real option"
  entry_longitude :: "real option"
  entry_sensordatavalues :: "sensordatavalue list"

text \<open>\<open>a or b\<close> on optional strings: the empty string and \<open>None\<close> are falsy.\<close>

definition py_or :: "string option \<Rightarrow> string option \<Rightarrow> string option" where
  "py_or a b = (case a of None \<Rightarrow> b | Some t \<Rightarrow> if t = [] then b else Some t)"

definition truthy :: "string option \<Rightarrow> bool" where
  "truthy ts = (case ts of None \<Rightarrow> False | Some t \<Rightarrow> t \<noteq> [])"

text \<open>\<open>entry.get("timestamp") or entry.get("timestamp_measured")\<close>.\<close>

definition entry_ts :: "entry \<Rightarrow> string option" where
  "entry_ts e = py_or (entry_timestamp e) (entry_timestamp_measured e)"



subsection \<open>Selection by sensor id\<close>

text \<open>
  The first loop of \<open>fetch_sensor_data\<close>; the state is \<open>(latest_ts, candidate)\<close>.
  Strings compare as in Python, lexicographically by character code.
\<close>

fun select_by_id ::
  "int \<Rightarrow> entry list \<Rightarrow> string option \<times> entry option \<Rightarrow> string option \<times> entry option" where
  "select_by_id sensor_id [] (latest_ts, candidate) = (latest_ts, candidate)"
| "select_by_id sensor_id (e # data) (latest_ts, candidate) =
    (if entry_sensor_id e \<noteq> Some sensor_id then select_by_id sensor_id data (latest_ts, candidate)
     else
       (let ts = entry_ts e
        in if truthy ts \<and> (latest_ts = None \<or> the ts > the latest_ts)
           then select_by_id sensor_id data (ts, Some e)
           else select_by_id sensor_id data (latest_ts, candidate)))"

subsection \<open>Selection of the nearest sensor\<close>

text \<open>
  The haversine distance of the source, in exact real arithmetic. \<open>atan2\<close> is the
  two-argument arctangent of Python's \<open>math\<close> module.
\<close>

definition radians :: "real \<Rightarrow> real" where
  "radians x = x * pi / 180"

definition atan2 :: "real \<Rightarrow> real \<Rightarrow> real" where
  "atan2 y x =
    (if 0 < x then arctan (y / x)
     else if x < 0 \<and> 0 \<le> y then arctan (y / x) + pi
     else if x < 0 \<and> y < 0 then arctan (y / x) - pi
     else if 0 < y then pi / 2
     else if y < 0 then - pi / 2
     else 0)"

definition dist_km :: "real \<Rightarrow> real \<Rightarrow> real \<Rightarrow> real \<Rightarrow> real" where
  "dist_km a_lat a_lon b_lat b_lon =
    (let R = 6371;
         dlat = radians (b_lat - a_lat);
         dlon = radians (b_lon - a_lon);
         A = (sin (dlat / 2))\<^sup>2 + cos (radians a_lat) * cos (radians b_lat) * (sin (dlon / 2))\<^sup>2;
         c = 2 * atan2 (sqrt A) (sqrt (1 - A))
     in R * c)"

text \<open>
  The second loop; the state is \<open>(best, best_d)\<close>, and \<open>best_d = None\<close> stands for
  \<open>float("inf")\<close>, which every distance is below.
\<close>

fun select_nearest ::
  "real \<Rightarrow> real \<Rightarrow> entry list \<Rightarrow> entry option \<times> real option \<Rightarrow> entry option \<times> real option" where
  "select_nearest lat lon [] (best, best_d) = (best, best_d)"
| "select_nearest lat lon (e # data) (best, best_d) =
    (case (entry_latitude e, entry_longitude e) of
       (Some slat, Some slon) \<Rightarrow>
         (let d = dist_km lat lon slat slon
          in if (case best_d of None \<Rightarrow> True | Some b \<Rightarrow> d < b)
             then select_nearest lat lon data (Some e, Some d)
             else select_nearest lat lon data (best, best_d))
     | _ \<Rightarrow> select_nearest lat lon data (best, best_d))"

text \<open>Lines 84 to 127: the entry that \<open>fetch_sensor_data\<close> reads the pollutants from.\<close>

definition select_candidate :: "real \<Rightarrow> real \<Rightarrow> int option \<Rightarrow> entry list \<Rightarrow> entry option" where
  "select_candidate lat lon sensor_id data =
    (let candidate =
           (case sensor_id of
              None \<Rightarrow> None
            | Some sid \<Rightarrow> snd (select_by_id sid data (None, None)))
     in if candidate = None then fst (select_nearest lat lon data (None, None))
        else candidate)"

subsection \<open>The request\<close>








section \<open>State and history\<close>

text \<open>
  The file system maps a path to what the system calls meet there: no entry, an entry
  whose \<open>stat\<close> is refused, or an entry with what \<open>read_text\<close> finds in it.
  \<open>json.loads\<close> is a parameter: a function from the text to the parsed value, or to
  the exception it raises.
\<close>

datatype file_content = Unreadable | NotUtf8 | Text string

datatype path_status = NoEntry | StatDenied | Entry file_content

type_synonym filesystem = "string \<Rightarrow> path_status"

text \<open>
  \<open>Path.exists()\<close> calls \<open>stat\<close>. It returns \<open>False\<close> when \<open>stat\<close> fails because
  there is no such entry, and raises again every other \<open>OSError\<close>, such as the
  \<open>PermissionError\<close> of a directory that may not be searched (pathlib of Python 3.11).
\<close>

definition path_exists :: "filesystem \<Rightarrow> string \<Rightarrow> error + bool" where
  "path_exists fs path =
    (case fs path of
       NoEntry \<Rightarrow> Inr False
     | StatDenied \<Rightarrow> Inl PermissionError
     | Entry c \<Rightarrow> Inr True)"

definition read_text :: "filesystem \<Rightarrow> string \<Rightarrow> error + string" where
  "read_text fs path =
    (case fs path of
       NoEntry \<Rightarrow> Inl OSError
     | StatDenied \<Rightarrow> Inl PermissionError
     | Entry Unreadable \<Rightarrow> Inl OSError
     | Entry NotUtf8 \<Rightarrow> Inl UnicodeDecodeError
     | Entry (Text s) \<Rightarrow> Inr s)"

text \<open>
  The test \<open>path.exists()\<close> stands before the \<open>try\<close>: what it raises leaves
  \<open>load_json\<close>. Every constructor of \<open>error\<close> is a subclass of Python's
  \<open>Exception\<close>, so the handler \<open>except Exception\<close> takes each of them inside the
  \<open>try\<close>.
\<close>

definition load_json ::
  "(string \<Rightarrow> error + 'a) \<Rightarrow> filesystem \<Rightarrow> string \<Rightarrow> 'a \<Rightarrow> error + 'a" where
  "load_json loads fs path default_value =
    (case path_exists fs path of
       Inl e \<Rightarrow> Inl e
     | Inr True \<Rightarrow>
        (case (case read_text fs path of Inl e \<Rightarrow> Inl e | Inr s \<Rightarrow> loads s) of
           Inl e \<Rightarrow> Inr default_value
         | Inr v \<Rightarrow> Inr v)
     | Inr False \<Rightarrow> Inr default_value)"

record history_entry =
  h_ts :: real
  h_aqi :: "int option"
  h_pm25 :: "real option"
  h_pm10 :: "real option"

type_synonym history = "string \<Rightarrow> history_entry list option"


text \<open>
  \<open>update_history\<close> reads the module setting \<open>HOURS_HISTORY\<close> when it runs; the
  setting is the first argument of the model, and \<open>main\<close> passes the constant.
  The function returns the history it leaves behind.
\<close>

definition update_history ::
  "int \<Rightarrow> history \<Rightarrow> string \<Rightarrow> real \<Rightarrow> int option \<Rightarrow> real option \<Rightarrow> real option \<Rightarrow> history" where
  "update_history hours_history history key ts aqi pm25 pm10 =
    (let entries = (case history key of None \<Rightarrow> [] | Some es \<Rightarrow> es);
         entries = entries @ [\<lparr>h_ts = ts, h_aqi = aqi, h_pm25 = pm25, h_pm10 = pm10\<rparr>];
         max_age = of_int (hours_history * 3600);
         entries = filter (\<lambda>e. ts - h_ts e \<le> max_age) entries
     in history(key \<mapsto> entries))"

section \<open>The run\<close>









section \<open>Predicates of the statements\<close>

text \<open>
  An entry that the first loop of \<open>fetch_sensor_data\<close> can take: its sensor id is the
  one asked for and its timestamp is not empty.
\<close>

definition id_match :: "int \<Rightarrow> entry \<Rightarrow> bool" where
  "id_match sid e = (entry_sensor_id e = Some sid \<and> truthy (entry_ts e))"

text \<open>The test \<open>Clow <= C <= Chigh\<close> of a bucket.\<close>

definition in_bucket :: "real \<Rightarrow> bucket \<Rightarrow> bool" where
  "in_bucket C b = (fst b \<le> C \<and> C \<le> fst (snd b))"

section \<open>Properties\<close>

subsection \<open>Sensor resolver\<close>

lemma select_by_id_inv:
  assumes "select_by_id sid data (l, c) = (l', c')"
    and "(l = None \<and> c = None) \<or> (\<exists>e. c = Some e \<and> l = entry_ts e \<and> id_match sid e)"
  shows "((l' = None \<and> c' = None) \<or> (\<exists>e. c' = Some e \<and> l' = entry_ts e \<and> id_match sid e))
       \<and> (c' = None \<longleftrightarrow> c = None \<and> (\<forall>e\<in>set data. \<not> id_match sid e))
       \<and> (c' = c \<or> (\<exists>e\<in>set data. c' = Some e))
       \<and> (\<forall>e\<in>set data. id_match sid e \<longrightarrow> the (entry_ts e) \<le> the l')
       \<and> (l \<noteq> None \<longrightarrow> the l \<le> the l')"
  using assms
proof (induction data arbitrary: l c)
  case Nil
  then show ?case by auto
next
  case (Cons e data)
  show ?case
  proof (cases "id_match sid e \<and> (l = None \<or> the (entry_ts e) > the l)")
    case True
    then have step: "select_by_id sid data (entry_ts e, Some e) = (l', c')"
      using Cons.prems(1) by (simp add: id_match_def)
    have inv: "(entry_ts e = None \<and> Some e = None) \<or>
               (\<exists>e'. Some e = Some e' \<and> entry_ts e = entry_ts e' \<and> id_match sid e')"
      using True by simp
    note IH = Cons.IH [OF step inv]
    have tne: "entry_ts e \<noteq> None" using True by (auto simp: id_match_def truthy_def split: option.splits)
    show ?thesis using IH True tne Cons.prems(2) by (auto simp: id_match_def)
  next
    case False
    then have step: "select_by_id sid data (l, c) = (l', c')"
      using Cons.prems(1) by (auto simp: id_match_def split: if_splits)
    note IH = Cons.IH [OF step Cons.prems(2)]
    have le: "id_match sid e \<Longrightarrow> the (entry_ts e) \<le> the l'"
    proof -
      assume m: "id_match sid e"
      then have "l \<noteq> None" and "the (entry_ts e) \<le> the l" using False by auto
      then show ?thesis using IH by auto
    qed
    have cn: "id_match sid e \<Longrightarrow> c \<noteq> None"
      using False Cons.prems(2) by auto
    show ?thesis using IH le cn by auto
  qed
qed

lemma atan2_nonneg: "0 \<le> y \<Longrightarrow> 0 \<le> atan2 y x"
proof -
  assume y: "0 \<le> y"
  have lb: "- (pi / 2) < arctan (y / x)" by (rule arctan_lbound)
  show ?thesis
  proof (cases "0 < x")
    case True
    then have "0 \<le> y / x" using y by simp
    then show ?thesis using True by (simp add: atan2_def zero_le_arctan_iff)
  next
    case False
    have "0 \<le> arctan (y / x) + pi" using lb pi_gt_zero by linarith
    then show ?thesis using False y by (auto simp: atan2_def)
  qed
qed

lemma dist_km_same: "dist_km a b a b = 0"
  by (simp add: dist_km_def radians_def atan2_def Let_def)

lemma dist_km_north_nonneg: "0 \<le> dist_km a b c b"
proof -
  have "0 \<le> atan2 (sqrt ((sin (radians (c - a) / 2))\<^sup>2)) (sqrt (1 - (sin (radians (c - a) / 2))\<^sup>2))"
    by (rule atan2_nonneg) simp
  then show ?thesis by (simp add: dist_km_def radians_def Let_def)
qed

text \<open>
  C1, as the code has it. When some entry carries the preferred sensor id together with a
  non-empty timestamp, the entry chosen is the result of the loop by id: it is an entry
  of the list with that id, no such entry has a greater timestamp, and the distances play
  no part. An entry whose timestamp is missing or empty is skipped by the guard
  \<open>if ts and ...\<close>: when no entry with the preferred id has a timestamp, the choice
  is that of the nearest-sensor loop.
\<close>

theorem resolver_prefers_id:
  "((\<exists>e\<in>set data. id_match sid e) \<longrightarrow>
      (\<exists>c. select_candidate lat lon (Some sid) data = Some c
         \<and> snd (select_by_id sid data (None, None)) = Some c
         \<and> c \<in> set data \<and> id_match sid c
         \<and> (\<forall>e\<in>set data. id_match sid e \<longrightarrow> the (entry_ts e) \<le> the (entry_ts c))))
   \<and> ((\<forall>e\<in>set data. \<not> id_match sid e) \<longrightarrow>
        select_candidate lat lon (Some sid) data = fst (select_nearest lat lon data (None, None)))"
proof -
  obtain l' c' where r: "select_by_id sid data (None, None) = (l', c')"
    by (cases "select_by_id sid data (None, None)") auto
  have inv: "(None = None \<and> None = None) \<or> (\<exists>e. None = Some e \<and> None = entry_ts e \<and> id_match sid e)"
    by simp
  note I = select_by_id_inv [OF r inv]
  have sc: "select_candidate lat lon (Some sid) data =
      (if c' = None then fst (select_nearest lat lon data (None, None)) else c')"
    using r by (simp add: select_candidate_def)
  show ?thesis
  proof (intro conjI impI)
    assume ex: "\<exists>e\<in>set data. id_match sid e"
    then have "c' \<noteq> None" using I by auto
    then obtain c where c: "c' = Some c" by auto
    have "l' = entry_ts c" and "id_match sid c" using I c by auto
    moreover have "c \<in> set data" using I c by auto
    ultimately show "\<exists>c. select_candidate lat lon (Some sid) data = Some c
         \<and> snd (select_by_id sid data (None, None)) = Some c
         \<and> c \<in> set data \<and> id_match sid c
         \<and> (\<forall>e\<in>set data. id_match sid e \<longrightarrow> the (entry_ts e) \<le> the (entry_ts c))"
      using I c sc r by auto
  next
    assume "\<forall>e\<in>set data. \<not> id_match sid e"
    then have "c' = None" using I by auto
    then show "select_candidate lat lon (Some sid) data = fst (select_nearest lat lon data (None, None))"
      using sc by simp
  qed
qed

text \<open>
  C1 as stated fails: sensor 7 is asked for, its only entry has no timestamp and lies one
  degree north of the target, and the entry of sensor 1 at the target is chosen.
\<close>

theorem resolver_untimed_match_counterexample:
  "select_candidate 0 0 (Some 7)
     [\<lparr>entry_sensor_id = Some 1, entry_timestamp = Some ''2024-01-01 00:00:00'',
        entry_timestamp_measured = None, entry_latitude = Some 0, entry_longitude = Some 0,
        entry_sensordatavalues = []\<rparr>,
      \<lparr>entry_sensor_id = Some 7, entry_timestamp = None,
        entry_timestamp_measured = None, entry_latitude = Some 1, entry_longitude = Some 0,
        entry_sensordatavalues = []\<rparr>]
   = Some \<lparr>entry_sensor_id = Some 1, entry_timestamp = Some ''2024-01-01 00:00:00'',
        entry_timestamp_measured = None, entry_latitude = Some 0, entry_longitude = Some 0,
        entry_sensordatavalues = []\<rparr>"
proof -
  have "\<not> dist_km 0 0 1 0 < 0" using dist_km_north_nonneg [of 0 0 1] by simp
  then show ?thesis
    by (simp add: select_candidate_def entry_ts_def py_or_def truthy_def dist_km_same Let_def)
qed

text \<open>The same payload with a timestamp on the entry of sensor 7: that entry is chosen.\<close>

theorem resolver_prefers_id_witness:
  "select_candidate 0 0 (Some 7)
     [\<lparr>entry_sensor_id = Some 1, entry_timestamp = Some ''2024-01-01 00:00:00'',
        entry_timestamp_measured = None, entry_latitude = Some 0, entry_longitude = Some 0,
        entry_sensordatavalues = []\<rparr>,
      \<lparr>entry_sensor_id = Some 7, entry_timestamp = Some ''2024-01-01 00:05:00'',
        entry_timestamp_measured = None, entry_latitude = Some 1, entry_longitude = Some 0,
        entry_sensordatavalues = []\<rparr>]
   = Some \<lparr>entry_sensor_id = Some 7, entry_timestamp = Some ''2024-01-01 00:05:00'',
        entry_timestamp_measured = None, entry_latitude = Some 1, entry_longitude = Some 0,
        entry_sensordatavalues = []\<rparr>"
  using resolver_prefers_id [of
     "[\<lparr>entry_sensor_id = Some 1, entry_timestamp = Some ''2024-01-01 00:00:00'',
        entry_timestamp_measured = None, entry_latitude = Some 0, entry_longitude = Some 0,
        entry_sensordatavalues = []\<rparr>,
      \<lparr>entry_sensor_id = Some 7, entry_timestamp = Some ''2024-01-01 00:05:00'',
        entry_timestamp_measured = None, entry_latitude = Some 1, entry_longitude = Some 0,
        entry_sensordatavalues = []\<rparr>]" 7 0 0]
  by (auto simp: id_match_def entry_ts_def py_or_def truthy_def)

subsection \<open>AQI calculator\<close>

lemmas tabs = PM25_BREAKPOINTS_def PM10_BREAKPOINTS_def

lemma py_round_mono: "x \<le> y \<Longrightarrow> py_round x \<le> py_round y"
proof -
  assume xy: "x \<le> y"
  have fl: "\<lfloor>x\<rfloor> \<le> \<lfloor>y\<rfloor>" using xy by (rule floor_mono)
  show ?thesis
  proof (cases "\<lfloor>x\<rfloor> = \<lfloor>y\<rfloor>")
    case True
    then show ?thesis using xy by (auto simp: py_round_def Let_def)
  next
    case False
    then have "\<lfloor>x\<rfloor> + 1 \<le> \<lfloor>y\<rfloor>" using fl by simp
    moreover have "py_round x \<le> \<lfloor>x\<rfloor> + 1" by (simp add: py_round_def Let_def)
    moreover have "\<lfloor>y\<rfloor> \<le> py_round y" by (simp add: py_round_def Let_def)
    ultimately show ?thesis by linarith
  qed
qed


lemma fl_zero: "fl 0 = 0"
  by (simp add: fl_def)

lemma floor_log2: 
  assumes "2 powr of_int e \<le> \<bar>x\<bar>" "\<bar>x\<bar> < 2 powr of_int (e + 1)"
  shows "\<lfloor>log 2 \<bar>x\<bar>\<rfloor> = e"
proof -
  have pos: "0 < \<bar>x\<bar>" using assms(1) powr_gt_zero [of 2 "of_int e"] by linarith
  have 1: "of_int e \<le> log 2 \<bar>x\<bar>" using assms(1) pos by (simp add: le_log_iff)
  have 2: "log 2 \<bar>x\<bar> < of_int (e + 1)" using assms(2) pos by (simp add: log_less_iff)
  show ?thesis using 1 2 by (intro floor_unique) simp_all
qed

lemma fl_eval:
  assumes "2 powr of_int e \<le> \<bar>x\<bar>" "\<bar>x\<bar> < 2 powr of_int (e + 1)" "- 1022 \<le> e"
  shows "fl x = of_int (py_round (x / 2 powr of_int (e - 52))) * 2 powr of_int (e - 52)"
proof -
  have "x \<noteq> 0" using assms(1) powr_gt_zero [of 2 "of_int e"] by auto
  moreover have "ulp_exp x = e - 52" using floor_log2 [OF assms(1,2)] assms(3) by (simp add: ulp_exp_def)
  ultimately show ?thesis by (simp add: fl_def)
qed


lemma py_round_of_int: "py_round (of_int n) = n"
  by (simp add: py_round_def)

lemma fl_nonneg: "0 \<le> x \<Longrightarrow> 0 \<le> fl x"
proof -
  assume x: "0 \<le> x"
  have "0 \<le> x / 2 powr of_int (ulp_exp x)" using x by simp
  then have "py_round (of_int 0) \<le> py_round (x / 2 powr of_int (ulp_exp x))"
    by (intro py_round_mono) simp
  then have "0 \<le> py_round (x / 2 powr of_int (ulp_exp x))" by (simp only: py_round_of_int)
  then show ?thesis by (simp add: fl_def)
qed

lemma log2_bounds:
  assumes "0 < x"
  shows "2 powr of_int \<lfloor>log 2 x\<rfloor> \<le> x" and "x < 2 powr of_int (\<lfloor>log 2 x\<rfloor> + 1)"
proof -
  have x: "2 powr log 2 x = x" using assms by simp
  have "2 powr of_int \<lfloor>log 2 x\<rfloor> \<le> 2 powr log 2 x" by (intro powr_mono) simp_all
  then show "2 powr of_int \<lfloor>log 2 x\<rfloor> \<le> x" using x by simp
  have "log 2 x < of_int (\<lfloor>log 2 x\<rfloor> + 1)" by linarith
  then have "2 powr log 2 x < 2 powr of_int (\<lfloor>log 2 x\<rfloor> + 1)" by (intro powr_less_mono) simp_all
  then show "x < 2 powr of_int (\<lfloor>log 2 x\<rfloor> + 1)" using x by simp
qed

lemma pow2_shift:
  "2 powr of_int (q + 53) = (9007199254740992::real) * 2 powr of_int q"
  "2 powr of_int (q + 52) = (4503599627370496::real) * 2 powr of_int q"
proof -
  have "(2::real) powr of_int (q + 53) = 2 powr (53 + of_int q)" by (simp add: add.commute)
  also have "\<dots> = 2 powr 53 * 2 powr of_int q" by (rule powr_add)
  finally show "2 powr of_int (q + 53) = (9007199254740992::real) * 2 powr of_int q" by simp
  have "(2::real) powr of_int (q + 52) = 2 powr (52 + of_int q)" by (simp add: add.commute)
  also have "\<dots> = 2 powr 52 * 2 powr of_int q" by (rule powr_add)
  finally show "2 powr of_int (q + 52) = (4503599627370496::real) * 2 powr of_int q" by simp
qed

lemma fl_upper:
  assumes "0 < x"
  shows "fl x \<le> 2 powr of_int (ulp_exp x + 53)"
proof -
  let ?q = "ulp_exp x"
  let ?e = "\<lfloor>log 2 x\<rfloor>"
  have p: "0 < 2 powr real_of_int ?q" by simp
  have q: "?e - 52 \<le> ?q" using assms by (simp add: ulp_exp_def)
  have "x < 2 powr of_int (?e + 1)" using log2_bounds(2) [OF assms] .
  also have "\<dots> \<le> 2 powr of_int (?q + 53)" using q by (intro powr_mono) simp_all
  finally have "x \<le> 9007199254740992 * 2 powr of_int ?q" by (simp only: pow2_shift)
  then have "x / 2 powr of_int ?q \<le> of_int 9007199254740992" using p by (simp add: pos_divide_le_eq)
  then have "py_round (x / 2 powr of_int ?q) \<le> py_round (of_int 9007199254740992)" by (rule py_round_mono)
  then have "py_round (x / 2 powr of_int ?q) \<le> 9007199254740992" by (simp only: py_round_of_int)
  then have "real_of_int (py_round (x / 2 powr of_int ?q)) \<le> 9007199254740992" by linarith
  then have "real_of_int (py_round (x / 2 powr of_int ?q)) * 2 powr of_int ?q
      \<le> 9007199254740992 * 2 powr of_int ?q"
    using p by (intro mult_right_mono) simp_all
  then show ?thesis using assms by (simp only: pow2_shift) (simp add: fl_def)
qed

lemma fl_lower:
  assumes "0 < y" and "ulp_exp y = \<lfloor>log 2 y\<rfloor> - 52"
  shows "2 powr of_int (ulp_exp y + 52) \<le> fl y"
proof -
  let ?q = "ulp_exp y"
  have p: "0 < 2 powr real_of_int ?q" by simp
  have "2 powr of_int (?q + 52) \<le> y" using log2_bounds(1) [OF assms(1)] assms(2) by simp
  then have "4503599627370496 * 2 powr of_int ?q \<le> y" by (simp only: pow2_shift)
  then have "of_int 4503599627370496 \<le> y / 2 powr of_int ?q" using p by (simp add: pos_le_divide_eq)
  then have "py_round (of_int 4503599627370496) \<le> py_round (y / 2 powr of_int ?q)"
    by (rule py_round_mono)
  then have "4503599627370496 \<le> py_round (y / 2 powr of_int ?q)" by (simp only: py_round_of_int)
  then have "4503599627370496 \<le> real_of_int (py_round (y / 2 powr of_int ?q))" by linarith
  then have "4503599627370496 * 2 powr of_int ?q
      \<le> real_of_int (py_round (y / 2 powr of_int ?q)) * 2 powr of_int ?q"
    using p by (intro mult_right_mono) simp_all
  then show ?thesis using assms(1) by (simp only: pow2_shift) (simp add: fl_def)
qed

lemma fl_mono:
  assumes "0 \<le> x" and "x \<le> y"
  shows "fl x \<le> fl y"
proof (cases "x = 0")
  case True
  then show ?thesis using fl_nonneg [of y] assms by (simp add: fl_def)
next
  case False
  then have x: "0 < x" and y: "0 < y" using assms by auto
  have "log 2 x \<le> log 2 y" using x assms(2) by simp
  then have e: "\<lfloor>log 2 x\<rfloor> \<le> \<lfloor>log 2 y\<rfloor>" by (rule floor_mono)
  then have q: "ulp_exp x \<le> ulp_exp y" using x y by (simp add: ulp_exp_def)
  show ?thesis
  proof (cases "ulp_exp x = ulp_exp y")
    case True
    have "x / 2 powr of_int (ulp_exp y) \<le> y / 2 powr of_int (ulp_exp y)"
      using assms(2) by (intro divide_right_mono) simp_all
    then have "py_round (x / 2 powr of_int (ulp_exp y)) \<le> py_round (y / 2 powr of_int (ulp_exp y))"
      by (rule py_round_mono)
    then have "real_of_int (py_round (x / 2 powr of_int (ulp_exp y))) * 2 powr of_int (ulp_exp y)
        \<le> real_of_int (py_round (y / 2 powr of_int (ulp_exp y))) * 2 powr of_int (ulp_exp y)"
      by (intro mult_right_mono) simp_all
    then show ?thesis using True x y by (simp add: fl_def)
  next
    case False
    then have lt: "ulp_exp x + 1 \<le> ulp_exp y" using q by simp
    have "- 1074 \<le> ulp_exp x" by (simp add: ulp_exp_def)
    then have qy: "ulp_exp y = \<lfloor>log 2 y\<rfloor> - 52" using lt y by (simp add: ulp_exp_def)
    have "fl x \<le> 2 powr of_int (ulp_exp x + 53)" by (rule fl_upper [OF x])
    also have "\<dots> \<le> 2 powr of_int (ulp_exp y + 52)" using lt by (intro powr_mono) simp_all
    also have "\<dots> \<le> fl y" by (rule fl_lower [OF y qy])
    finally show ?thesis .
  qed
qed

lemma calc_none_iff:
  "\<forall>b\<in>set table. fst (snd b) - fst b \<noteq> 0 \<Longrightarrow>
   calc_aqi_from_breakpoints (Some C) table = Inr None \<longleftrightarrow>
     (\<forall>b\<in>set table. \<not> in_bucket C b)"
proof (induction table)
  case Nil
  then show ?case by simp
next
  case (Cons b table)
  obtain l h il ih where b: "b = (l, h, il, ih)" by (cases b) auto
  have nz: "h - l \<noteq> 0" using Cons.prems b by simp
  have IH: "calc_aqi_from_breakpoints (Some C) table = Inr None \<longleftrightarrow>
     (\<forall>b\<in>set table. \<not> in_bucket C b)"
    by (rule Cons.IH) (use Cons.prems in simp)
  show ?case using IH nz by (simp add: b in_bucket_def)
qed

lemma widths_all:
  "\<forall>b\<in>set PM25_BREAKPOINTS \<union> set PM10_BREAKPOINTS.
     0 \<le> fst b \<and> fst b < fst (snd b)
     \<and> 0 \<le> fst (snd (snd b)) \<and> fst (snd (snd b)) \<le> snd (snd (snd b))"
  by (simp add: tabs)

lemma slopes:
  assumes "table = PM25_BREAKPOINTS \<or> table = PM10_BREAKPOINTS" and "b \<in> set table"
  shows "0 \<le> fst b \<and> fst b < fst (snd b)
     \<and> 0 \<le> fst (snd (snd b)) \<and> fst (snd (snd b)) \<le> snd (snd (snd b))"
proof -
  have "b \<in> set PM25_BREAKPOINTS \<union> set PM10_BREAKPOINTS" using assms by auto
  then show ?thesis using widths_all by blast
qed

lemma calc_in_bucket_25:
  "\<forall>b\<in>set PM25_BREAKPOINTS. \<forall>C. fst b \<le> C \<and> C \<le> fst (snd b) \<longrightarrow>
   calc_aqi_from_breakpoints (Some C) PM25_BREAKPOINTS = Inr (Some (py_round (raw_index C b)))"
  by (simp add: PM25_BREAKPOINTS_def)

lemma calc_in_bucket_10:
  "\<forall>b\<in>set PM10_BREAKPOINTS. \<forall>C. fst b \<le> C \<and> C \<le> fst (snd b) \<longrightarrow>
   calc_aqi_from_breakpoints (Some C) PM10_BREAKPOINTS = Inr (Some (py_round (raw_index C b)))"
  by (simp add: PM10_BREAKPOINTS_def)

lemma calc_in_bucket:
  assumes "table = PM25_BREAKPOINTS \<or> table = PM10_BREAKPOINTS"
    and "b \<in> set table" and "in_bucket C b"
  shows "calc_aqi_from_breakpoints (Some C) table = Inr (Some (py_round (raw_index C b)))"
  using assms calc_in_bucket_25 calc_in_bucket_10 unfolding in_bucket_def by blast

lemma raw_index_mono:
  assumes "0 \<le> fst b" and "fst b \<le> fst (snd b)"
    and "0 \<le> fst (snd (snd b))" and "fst (snd (snd b)) \<le> snd (snd (snd b))"
    and "fst b \<le> C1" and "C1 \<le> C2"
  shows "raw_index C1 b \<le> raw_index C2 b"
proof -
  obtain l h il ih where b: "b = (l, h, il, ih)" by (cases b) auto
  have l: "0 \<le> l" and lh: "l \<le> h" and il: "0 \<le> il" and ih: "il \<le> ih" and c1: "l \<le> C1"
    using assms b by simp_all
  have fl_l: "0 \<le> fl l" using l by (rule fl_nonneg)
  have "fl l \<le> fl h" using l lh by (rule fl_mono)
  then have w: "0 \<le> fl (fl h - fl l)" by (intro fl_nonneg) simp
  have "0 \<le> fl (of_int (ih - il))" using ih by (intro fl_nonneg) simp
  then have "0 \<le> fl (of_int (ih - il)) / fl (fl h - fl l)" using w by simp
  then have s: "0 \<le> fl (fl (of_int (ih - il)) / fl (fl h - fl l))" by (rule fl_nonneg)
  have "fl l \<le> fl C1" using l c1 by (rule fl_mono)
  moreover have "fl C1 \<le> fl C2" using l c1 assms(6) by (intro fl_mono) linarith+
  ultimately have d0: "0 \<le> fl C1 - fl l" and d12: "fl C1 - fl l \<le> fl C2 - fl l" by simp_all
  have d: "fl (fl C1 - fl l) \<le> fl (fl C2 - fl l)" using d0 d12 by (rule fl_mono)
  have d1: "0 \<le> fl (fl C1 - fl l)" using d0 by (rule fl_nonneg)
  have p0: "0 \<le> fl (fl (of_int (ih - il)) / fl (fl h - fl l)) * fl (fl C1 - fl l)"
    using s d1 by simp
  have p12: "fl (fl (of_int (ih - il)) / fl (fl h - fl l)) * fl (fl C1 - fl l)
      \<le> fl (fl (of_int (ih - il)) / fl (fl h - fl l)) * fl (fl C2 - fl l)"
    using s d by (rule mult_left_mono [rotated])
  have p: "fl (fl (fl (of_int (ih - il)) / fl (fl h - fl l)) * fl (fl C1 - fl l))
      \<le> fl (fl (fl (of_int (ih - il)) / fl (fl h - fl l)) * fl (fl C2 - fl l))"
    using p0 p12 by (rule fl_mono)
  have pp: "0 \<le> fl (fl (fl (of_int (ih - il)) / fl (fl h - fl l)) * fl (fl C1 - fl l))"
    using p0 by (rule fl_nonneg)
  have i: "0 \<le> fl (of_int il)" using il by (intro fl_nonneg) simp
  have "fl (fl (fl (fl (of_int (ih - il)) / fl (fl h - fl l)) * fl (fl C1 - fl l)) + fl (of_int il))
      \<le> fl (fl (fl (fl (of_int (ih - il)) / fl (fl h - fl l)) * fl (fl C2 - fl l)) + fl (of_int il))"
    using pp i p by (intro fl_mono) linarith+
  then show ?thesis by (simp add: raw_index_def b)
qed

lemma table_bounds:
  "\<forall>b\<in>set PM25_BREAKPOINTS. 0 \<le> fst b \<and> fst (snd b) \<le> fst (snd (last PM25_BREAKPOINTS))"
  "\<forall>b\<in>set PM10_BREAKPOINTS. 0 \<le> fst b \<and> fst (snd b) \<le> fst (snd (last PM10_BREAKPOINTS))"
  by (simp_all add: tabs)

lemma calc_no_raise:
  assumes "table = PM25_BREAKPOINTS \<or> table = PM10_BREAKPOINTS"
  shows "\<exists>a. calc_aqi_from_breakpoints c table = Inr a"
proof (cases c)
  case None
  then show ?thesis by simp
next
  case (Some C)
  show ?thesis
  proof (cases "\<exists>b\<in>set table. in_bucket C b")
    case True
    then obtain b where "b \<in> set table" "in_bucket C b" by auto
    then show ?thesis using calc_in_bucket [OF assms] Some by blast
  next
    case False
    have "\<forall>b\<in>set table. fst (snd b) - fst b \<noteq> 0" using slopes [OF assms] by fastforce
    then show ?thesis using calc_none_iff [of table C] False Some by auto
  qed
qed

text \<open>
  C3, as the code has it. For each of the two tables the index of a concentration is
  absent exactly when no bucket of the table contains the concentration; this is so below
  0 and above the high bound of the last bucket, and also between two buckets, since
  the buckets do not touch.
\<close>

theorem aqi_absent_iff_outside_buckets:
  assumes "table = PM25_BREAKPOINTS \<or> table = PM10_BREAKPOINTS"
  shows "(calc_aqi_from_breakpoints (Some C) table = Inr None \<longleftrightarrow> (\<forall>b\<in>set table. \<not> in_bucket C b))
       \<and> (C < 0 \<or> fst (snd (last table)) < C \<longrightarrow> calc_aqi_from_breakpoints (Some C) table = Inr None)"
proof -
  have nz: "\<forall>b\<in>set table. fst (snd b) - fst b \<noteq> 0" using slopes [OF assms] by fastforce
  have iff: "calc_aqi_from_breakpoints (Some C) table = Inr None \<longleftrightarrow> (\<forall>b\<in>set table. \<not> in_bucket C b)"
    using calc_none_iff [OF nz] .
  have bnd: "\<forall>b\<in>set table. 0 \<le> fst b \<and> fst (snd b) \<le> fst (snd (last table))"
    using assms table_bounds by blast
  have "C < 0 \<or> fst (snd (last table)) < C \<Longrightarrow> \<forall>b\<in>set table. \<not> in_bucket C b"
    using bnd by (fastforce simp: in_bucket_def)
  then show ?thesis using iff by blast
qed

text \<open>The concentration -1 has no PM10 index.\<close>

theorem aqi_absent_iff_outside_buckets_witness:
  "((-1::real) < 0 \<or> fst (snd (last PM10_BREAKPOINTS)) < -1)
   \<and> calc_aqi_from_breakpoints (Some (-1)) PM10_BREAKPOINTS = Inr None"
  using aqi_absent_iff_outside_buckets [of PM10_BREAKPOINTS "-1"] by simp

text \<open>
  C3 as stated fails: 12.05 lies between 0 and the top of the PM2.5 table, in the gap
  between the first bucket and the second, and has no index.
\<close>

theorem aqi_gap_counterexample:
  "(0::real) \<le> 12.05 \<and> (12.05::real) \<le> fst (snd (last PM25_BREAKPOINTS))
   \<and> calc_aqi_from_breakpoints (Some 12.05) PM25_BREAKPOINTS = Inr None"
  by (simp add: PM25_BREAKPOINTS_def)

text \<open>
  C4. Neither table lookup raises, and \<open>calc_aqi\<close> is the maximum of the two
  sub-indices when both are present, the present one when one is, and absent when
  neither is. A concentration that is \<open>None\<close>, or outside every bucket, has an
  absent sub-index.
\<close>

theorem combined_aqi_is_max:
  "\<exists>aqi25 aqi10.
     calc_aqi_from_breakpoints pm25 PM25_BREAKPOINTS = Inr aqi25
   \<and> calc_aqi_from_breakpoints pm10 PM10_BREAKPOINTS = Inr aqi10
   \<and> calc_aqi pm25 pm10 =
       Inr (case (aqi25, aqi10) of
              (Some a, Some b) \<Rightarrow> Some (max a b)
            | (Some a, None) \<Rightarrow> Some a
            | (None, Some b) \<Rightarrow> Some b
            | (None, None) \<Rightarrow> None)"
proof -
  obtain aqi25 where a: "calc_aqi_from_breakpoints pm25 PM25_BREAKPOINTS = Inr aqi25"
    using calc_no_raise [of PM25_BREAKPOINTS pm25] by auto
  obtain aqi10 where b: "calc_aqi_from_breakpoints pm10 PM10_BREAKPOINTS = Inr aqi10"
    using calc_no_raise [of PM10_BREAKPOINTS pm10] by auto
  have a': "pm25 = None \<Longrightarrow> aqi25 = None" using a by simp
  have b': "pm10 = None \<Longrightarrow> aqi10 = None" using b by simp
  have "calc_aqi pm25 pm10 =
       Inr (case (aqi25, aqi10) of
              (Some a, Some b) \<Rightarrow> Some (max a b)
            | (Some a, None) \<Rightarrow> Some a
            | (None, Some b) \<Rightarrow> Some b
            | (None, None) \<Rightarrow> None)"
    using a b a' b' by (cases pm25; cases pm10; cases aqi25; cases aqi10) (simp_all add: calc_aqi_def max.commute)
  then show ?thesis using a b by blast
qed

text \<open>
  The interpolation at the four points, one rounding after the other. The fractions
  are the doubles that Python computes.
\<close>

lemma raw_35_4: "raw_index (35.4) (12.1, 35.4, 51, 100) = 100"
proof -
  have f1: "fl (177 / 5) = 4982107087778611 / 140737488355328"
    using fl_eval [of "5" "177 / 5"] by (simp add: powr_minus_divide py_round_def)
  have f2: "fl (121 / 10) = 6811694436397875 / 562949953421312"
    using fl_eval [of "3" "121 / 10"] by (simp add: powr_minus_divide py_round_def)
  have f3: "fl (49) = 49"
    using fl_eval [of "5" "49"] by (simp add: powr_minus_divide py_round_def)
  have f4: "fl (51) = 51"
    using fl_eval [of "5" "51"] by (simp add: powr_minus_divide py_round_def)
  have f5: "fl (13116733914716569 / 562949953421312) = 1639591739339571 / 70368744177664"
    using fl_eval [of "4" "13116733914716569 / 562949953421312"] by (simp add: powr_minus_divide py_round_def)
  have f6: "fl (3448068464705536 / 1639591739339571) = 147985771017405 / 70368744177664"
    using fl_eval [of "1" "3448068464705536 / 1639591739339571"] by (simp add: powr_minus_divide py_round_def)
  have f7: "fl (242636247699934539467446233255 / 4951760157141521099596496896) = 49"
    using fl_eval [of "5" "242636247699934539467446233255 / 4951760157141521099596496896"] by (simp add: powr_minus_divide py_round_def)
  have f8: "fl (100) = 100"
    using fl_eval [of "6" "100"] by (simp add: powr_minus_divide py_round_def)
  show ?thesis
    by (simp add: raw_index_def fl_zero f1 f2 f3 f4 f5 f6 f7 f8)
qed

lemma raw_35_5: "raw_index (35.5) (35.5, 55.4, 101, 150) = 101"
proof -
  have f1: "fl (71 / 2) = 71 / 2"
    using fl_eval [of "5" "71 / 2"] by (simp add: powr_minus_divide py_round_def)
  have f2: "fl (277 / 5) = 7796856854885171 / 140737488355328"
    using fl_eval [of "5" "277 / 5"] by (simp add: powr_minus_divide py_round_def)
  have f3: "fl (49) = 49"
    using fl_eval [of "5" "49"] by (simp add: powr_minus_divide py_round_def)
  have f4: "fl (101) = 101"
    using fl_eval [of "6" "101"] by (simp add: powr_minus_divide py_round_def)
  have f5: "fl (2800676018271027 / 140737488355328) = 2800676018271027 / 140737488355328"
    using fl_eval [of "4" "2800676018271027 / 140737488355328"] by (simp add: powr_minus_divide py_round_def)
  have f6: "fl (6896136929411072 / 2800676018271027) = 5544632707064179 / 2251799813685248"
    using fl_eval [of "1" "6896136929411072 / 2800676018271027"] by (simp add: powr_minus_divide py_round_def)
  show ?thesis
    by (simp add: raw_index_def fl_zero f1 f2 f3 f4 f5 f6)
qed

lemma raw_12_0: "raw_index (12.0) (0.0, 12.0, 0, 50) = 50"
proof -
  have f1: "fl (12) = 12"
    using fl_eval [of "3" "12"] by (simp add: powr_minus_divide py_round_def)
  have f2: "fl (50) = 50"
    using fl_eval [of "5" "50"] by (simp add: powr_minus_divide py_round_def)
  have f3: "fl (25 / 6) = 4691249611844267 / 1125899906842624"
    using fl_eval [of "2" "25 / 6"] by (simp add: powr_minus_divide py_round_def)
  have f4: "fl (14073748835532801 / 281474976710656) = 50"
    using fl_eval [of "5" "14073748835532801 / 281474976710656"] by (simp add: powr_minus_divide py_round_def)
  show ?thesis
    by (simp add: raw_index_def fl_zero f1 f2 f3 f4)
qed

lemma raw_12_1: "raw_index (12.1) (12.1, 35.4, 51, 100) = 51"
proof -
  have f1: "fl (121 / 10) = 6811694436397875 / 562949953421312"
    using fl_eval [of "3" "121 / 10"] by (simp add: powr_minus_divide py_round_def)
  have f2: "fl (177 / 5) = 4982107087778611 / 140737488355328"
    using fl_eval [of "5" "177 / 5"] by (simp add: powr_minus_divide py_round_def)
  have f3: "fl (49) = 49"
    using fl_eval [of "5" "49"] by (simp add: powr_minus_divide py_round_def)
  have f4: "fl (51) = 51"
    using fl_eval [of "5" "51"] by (simp add: powr_minus_divide py_round_def)
  have f5: "fl (13116733914716569 / 562949953421312) = 1639591739339571 / 70368744177664"
    using fl_eval [of "4" "13116733914716569 / 562949953421312"] by (simp add: powr_minus_divide py_round_def)
  have f6: "fl (3448068464705536 / 1639591739339571) = 147985771017405 / 70368744177664"
    using fl_eval [of "1" "3448068464705536 / 1639591739339571"] by (simp add: powr_minus_divide py_round_def)
  show ?thesis
    by (simp add: raw_index_def fl_zero f1 f2 f3 f4 f5 f6)
qed

text \<open>
  C7. With the PM2.5 table, 35.4 gives 100, 35.5 gives 101, 12.0 gives 50 and 12.1
  gives 51.
\<close>

theorem pm25_canonical_boundaries:
  "calc_aqi_from_breakpoints (Some 35.4) PM25_BREAKPOINTS = Inr (Some 100)
   \<and> calc_aqi_from_breakpoints (Some 35.5) PM25_BREAKPOINTS = Inr (Some 101)
   \<and> calc_aqi_from_breakpoints (Some 12.0) PM25_BREAKPOINTS = Inr (Some 50)
   \<and> calc_aqi_from_breakpoints (Some 12.1) PM25_BREAKPOINTS = Inr (Some 51)"
  using raw_35_4 raw_35_5 raw_12_0 raw_12_1
  by (simp add: PM25_BREAKPOINTS_def py_round_def)

text \<open>
  C8. For both tables, two concentrations \<open>C1 \<le> C2\<close> of the same bucket have
  indices, and the index of \<open>C1\<close> is at most that of \<open>C2\<close>.
\<close>

theorem aqi_monotone_in_bucket:
  assumes "table = PM25_BREAKPOINTS \<or> table = PM10_BREAKPOINTS"
    and "b \<in> set table" and "in_bucket C1 b" and "in_bucket C2 b" and "C1 \<le> C2"
  shows "\<exists>a1 a2. calc_aqi_from_breakpoints (Some C1) table = Inr (Some a1)
               \<and> calc_aqi_from_breakpoints (Some C2) table = Inr (Some a2)
               \<and> a1 \<le> a2"
proof -
  have 1: "calc_aqi_from_breakpoints (Some C1) table = Inr (Some (py_round (raw_index C1 b)))"
    using assms by (intro calc_in_bucket)
  have 2: "calc_aqi_from_breakpoints (Some C2) table = Inr (Some (py_round (raw_index C2 b)))"
    using assms by (intro calc_in_bucket)
  have "raw_index C1 b \<le> raw_index C2 b"
    using slopes [OF assms(1,2)] assms(3,5) by (intro raw_index_mono) (simp_all add: in_bucket_def)
  then have "py_round (raw_index C1 b) \<le> py_round (raw_index C2 b)" by (rule py_round_mono)
  then show ?thesis using 1 2 by blast
qed

text \<open>The concentrations 20 and 30 of the second PM2.5 bucket.\<close>

theorem aqi_monotone_in_bucket_witness:
  "\<exists>a1 a2. calc_aqi_from_breakpoints (Some 20) PM25_BREAKPOINTS = Inr (Some a1)
          \<and> calc_aqi_from_breakpoints (Some 30) PM25_BREAKPOINTS = Inr (Some a2)
          \<and> a1 \<le> a2"
  using aqi_monotone_in_bucket [of PM25_BREAKPOINTS "(12.1, 35.4, 51, 100)" 20 30]
  by (simp add: PM25_BREAKPOINTS_def in_bucket_def)


lemma raw_pm25_1_08: "raw_index (1.08) (0.0, 12.0, 0, 50) = 5066549580791809 / 1125899906842624"
proof -
  have f1: "fl (27 / 25) = 607985949695017 / 562949953421312"
    using fl_eval [of "0" "27 / 25"] by (simp add: powr_minus_divide py_round_def)
  have f2: "fl (12) = 12"
    using fl_eval [of "3" "12"] by (simp add: powr_minus_divide py_round_def)
  have f3: "fl (50) = 50"
    using fl_eval [of "5" "50"] by (simp add: powr_minus_divide py_round_def)
  have f4: "fl (25 / 6) = 4691249611844267 / 1125899906842624"
    using fl_eval [of "2" "25 / 6"] by (simp add: powr_minus_divide py_round_def)
  have f5: "fl (607985949695017 / 562949953421312) = 607985949695017 / 562949953421312"
    using fl_eval [of "0" "607985949695017 / 562949953421312"] by (simp add: powr_minus_divide py_round_def)
  have f6: "fl (2852213850513516543679549917539 / 633825300114114700748351602688) = 5066549580791809 / 1125899906842624"
    using fl_eval [of "2" "2852213850513516543679549917539 / 633825300114114700748351602688"] by (simp add: powr_minus_divide py_round_def)
  have f7: "fl (5066549580791809 / 1125899906842624) = 5066549580791809 / 1125899906842624"
    using fl_eval [of "2" "5066549580791809 / 1125899906842624"] by (simp add: powr_minus_divide py_round_def)
  show ?thesis
    by (simp add: raw_index_def fl_zero f1 f2 f3 f4 f5 f6 f7)
qed

lemma raw_pm10_16_74: "raw_index (16.74) (0, 54, 0, 50) = 8725724278030335 / 562949953421312"
proof -
  have f1: "fl (837 / 50) = 4711891110136381 / 281474976710656"
    using fl_eval [of "4" "837 / 50"] by (simp add: powr_minus_divide py_round_def)
  have f2: "fl (54) = 54"
    using fl_eval [of "5" "54"] by (simp add: powr_minus_divide py_round_def)
  have f3: "fl (50) = 50"
    using fl_eval [of "5" "50"] by (simp add: powr_minus_divide py_round_def)
  have f4: "fl (25 / 27) = 8339999309945363 / 9007199254740992"
    using fl_eval [of "- 1" "25 / 27"] by (simp add: powr_minus_divide py_round_def)
  have f5: "fl (4711891110136381 / 281474976710656) = 4711891110136381 / 281474976710656"
    using fl_eval [of "4" "4711891110136381 / 281474976710656"] by (simp add: powr_minus_divide py_round_def)
  have f6: "fl (39297168607075107951312588551303 / 2535301200456458802993406410752) = 8725724278030335 / 562949953421312"
    using fl_eval [of "3" "39297168607075107951312588551303 / 2535301200456458802993406410752"] by (simp add: powr_minus_divide py_round_def)
  have f7: "fl (8725724278030335 / 562949953421312) = 8725724278030335 / 562949953421312"
    using fl_eval [of "3" "8725724278030335 / 562949953421312"] by (simp add: powr_minus_divide py_round_def)
  show ?thesis
    by (simp add: raw_index_def fl_zero f1 f2 f3 f4 f5 f6 f7)
qed

lemma index_off_tie:
  "calc_aqi_from_breakpoints (Some 1.08) PM25_BREAKPOINTS = Inr (Some 5)"
  "calc_aqi_from_breakpoints (Some 16.74) PM10_BREAKPOINTS = Inr (Some 15)"
proof -
  have "py_round (raw_index 1.08 (0.0, 12.0, 0, 50)) = 5"
    by (simp only: raw_pm25_1_08) (simp add: py_round_def)
  then show "calc_aqi_from_breakpoints (Some 1.08) PM25_BREAKPOINTS = Inr (Some 5)"
    by (simp add: PM25_BREAKPOINTS_def)
  have "py_round (raw_index 16.74 (0, 54, 0, 50)) = 15"
    by (simp only: raw_pm10_16_74) (simp add: py_round_def)
  then show "calc_aqi_from_breakpoints (Some 16.74) PM10_BREAKPOINTS = Inr (Some 15)"
    by (simp add: PM10_BREAKPOINTS_def)
qed



subsection \<open>Trend\<close>

text \<open>
  C6. \<open>trend_icon\<close> is flat whenever one of the two values is absent, up when both
  are present and the new one is greater, down when it is smaller, flat when they are
  equal; for equal arguments it is always flat.
\<close>

theorem trend_icon_cases:
  "(new = None \<or> old = None \<longrightarrow> trend_icon new old = ''arrow_flat'')
   \<and> (\<forall>a b. new = Some a \<and> old = Some b \<longrightarrow>
         (b < a \<longrightarrow> trend_icon new old = ''arrow_up'')
       \<and> (a < b \<longrightarrow> trend_icon new old = ''arrow_down'')
       \<and> (a = b \<longrightarrow> trend_icon new old = ''arrow_flat''))
   \<and> trend_icon x x = ''arrow_flat''"
  by (auto simp: trend_icon_def)

text \<open>One pair of values for each of the four cases.\<close>

theorem trend_icon_cases_witness:
  "trend_icon None (Some 3) = ''arrow_flat''
   \<and> trend_icon (Some 7) (Some 3) = ''arrow_up''
   \<and> trend_icon (Some 3) (Some 7) = ''arrow_down''
   \<and> trend_icon (Some 3) (Some 3) = ''arrow_flat''"
  using trend_icon_cases [of None "Some 3" "Some 3"]
    trend_icon_cases [of "Some 7" "Some 3" "Some 3"]
    trend_icon_cases [of "Some 3" "Some 7" "Some 3"]
  by simp

subsection \<open>History store\<close>

text \<open>
  C5. With a retention of \<open>hours\<close> hours, not negative, the sequence of the key after
  the call is the earlier entries whose age against the appended timestamp \<open>T\<close> is at
  most \<open>hours * 3600\<close> seconds, in their earlier order, followed by the new entry. An
  entry whose age is exactly the window is kept, no entry kept is older than the
  window, and the other keys are left as they were. The source's float subtraction is
  the exact one here.
\<close>

theorem update_history_window:
  assumes "0 \<le> hours"
  shows "update_history hours history key T aqi pm25 pm10 key =
           Some (filter (\<lambda>e. T - h_ts e \<le> of_int (hours * 3600))
                        (case history key of None \<Rightarrow> [] | Some es \<Rightarrow> es)
                 @ [\<lparr>h_ts = T, h_aqi = aqi, h_pm25 = pm25, h_pm10 = pm10\<rparr>])
       \<and> (\<forall>e\<in>set (case history key of None \<Rightarrow> [] | Some es \<Rightarrow> es).
            T - h_ts e = of_int (hours * 3600) \<longrightarrow>
            e \<in> set (the (update_history hours history key T aqi pm25 pm10 key)))
       \<and> (\<forall>e\<in>set (the (update_history hours history key T aqi pm25 pm10 key)).
            T - h_ts e \<le> of_int (hours * 3600))
       \<and> (\<forall>k. k \<noteq> key \<longrightarrow> update_history hours history key T aqi pm25 pm10 k = history k)"
  using assms by (auto simp: update_history_def Let_def)

text \<open>
  A window of one hour at \<open>T = 10000\<close>: the entry of age 3601 goes, the entry of age
  3600 stays.
\<close>

theorem update_history_window_witness:
  "update_history 1 (Map.empty(''home'' \<mapsto>
       [\<lparr>h_ts = 6399, h_aqi = Some 40, h_pm25 = Some 9, h_pm10 = Some 20\<rparr>,
        \<lparr>h_ts = 6400, h_aqi = Some 42, h_pm25 = None, h_pm10 = Some 30\<rparr>,
        \<lparr>h_ts = 9000, h_aqi = None, h_pm25 = None, h_pm10 = None\<rparr>]))
     ''home'' 10000 (Some 55) (Some 14) None ''home''
   = Some [\<lparr>h_ts = 6400, h_aqi = Some 42, h_pm25 = None, h_pm10 = Some 30\<rparr>,
           \<lparr>h_ts = 9000, h_aqi = None, h_pm25 = None, h_pm10 = None\<rparr>,
           \<lparr>h_ts = 10000, h_aqi = Some 55, h_pm25 = Some 14, h_pm10 = None\<rparr>]"
  using update_history_window [of 1 "Map.empty(''home'' \<mapsto>
       [\<lparr>h_ts = 6399, h_aqi = Some 40, h_pm25 = Some 9, h_pm10 = Some 20\<rparr>,
        \<lparr>h_ts = 6400, h_aqi = Some 42, h_pm25 = None, h_pm10 = Some 30\<rparr>,
        \<lparr>h_ts = 9000, h_aqi = None, h_pm25 = None, h_pm10 = None\<rparr>])"
     "''home''" 10000 "Some 55" "Some 14" None]
  by simp

subsection \<open>Persisted snapshots\<close>

text \<open>
  Where \<open>load_json\<close> recovers: it returns the default when there is no entry at the
  path, when the file cannot be read or decoded, and when \<open>json.loads\<close> raises on its
  text. It raises in one case only, when the existence test does.
\<close>

lemma load_json_recovers:
  "(fs path = NoEntry \<or> fs path = Entry Unreadable \<or> fs path = Entry NotUtf8
     \<or> (\<exists>s e. fs path = Entry (Text s) \<and> loads s = Inl e)
     \<longrightarrow> load_json loads fs path default_value = Inr default_value)
   \<and> (load_json loads fs path default_value = Inl e \<longleftrightarrow> fs path = StatDenied \<and> e = PermissionError)"
  by (auto simp: load_json_def path_exists_def read_text_def
      split: sum.splits path_status.splits file_content.splits bool.splits)

text \<open>
  C9 fails on the code. The state file lies in a directory that may not be searched:
  \<open>path.exists()\<close> raises \<open>PermissionError\<close> before the \<open>try\<close> is entered, and
  \<open>load_json\<close> raises instead of returning the default.
\<close>

theorem load_json_stat_denied_raises:
  "load_json (\<lambda>s. if s = ''{}'' then Inr (0::nat) else Inl JSONDecodeError)
     (\<lambda>p. if p = ''aqi_last.json'' then StatDenied else NoEntry)
     ''aqi_last.json'' 0 = Inl PermissionError"
  by (simp add: load_json_def path_exists_def)

subsection \<open>Failed requests\<close>




end
